theory Spec2Isabelle
  imports Main "HOL-Library.Sublist"
begin

section \<open>Strings of the host language\<close>

text \<open>
  The program is TypeScript; its strings are sequences of UTF-16 code units. Text that
  the handlers only trim, compare or concatenate (drafts, message contents, transcript
  lines, ids, key names) is a \<^typ>\<open>string\<close>, a \<^typ>\<open>char\<close> read as one code unit below
  256; there \<^verbatim>\<open>String.prototype.trim\<close> strips the units listed in \<open>isWhiteSpace\<close>.
  Contact names and search queries go through \<^verbatim>\<open>String.prototype.toLowerCase\<close>, whose
  result depends on letters beyond that range; they are lists of code units of any
  value.
\<close>

definition isWhiteSpace :: "char \<Rightarrow> bool" where
  "isWhiteSpace c = (of_char c \<in> {9, 10, 11, 12, 13, 32, 160 :: nat})"

definition trim :: "string \<Rightarrow> string" where
  "trim s = rev (dropWhile isWhiteSpace (rev (dropWhile isWhiteSpace s)))"

type_synonym jsstring = "nat list"

text \<open>An ASCII literal as code units.\<close>

definition units :: "string \<Rightarrow> jsstring" where
  "units s = map of_char s"

subsection \<open>\<^verbatim>\<open>String.prototype.toLowerCase\<close>\<close>

text \<open>
  By the language standard, \<open>toLowerCase\<close> reads the string as code points (a lead
  surrogate followed by a trail surrogate is one code point, any other unit stands for
  itself), maps them to lower case by the Unicode default case conversion, and writes
  the result back as code units. The conversion maps each code point by its simple
  lowercase mapping, but for the two language-independent rows of the special casing
  table: U+0130 becomes U+0069 U+0307, and U+03A3 (capital sigma) becomes U+03C2 (final
  small sigma) where it is preceded by a cased letter and then any number of
  case-ignorable characters, and not followed by any number of case-ignorable characters
  and then a cased letter.

  The character database is the host's, not the repository's: the three columns that
  the conversion reads are a parameter.
\<close>

record UCD =
  simpleLower :: "nat \<Rightarrow> nat"
  cased :: "nat \<Rightarrow> bool"
  caseIgnorable :: "nat \<Rightarrow> bool"

definition isLead :: "nat \<Rightarrow> bool" where
  "isLead a = (0xD800 \<le> a \<and> a \<le> 0xDBFF)"

definition isTrail :: "nat \<Rightarrow> bool" where
  "isTrail b = (0xDC00 \<le> b \<and> b \<le> 0xDFFF)"

fun codePoints :: "jsstring \<Rightarrow> nat list" where
  "codePoints (a # b # us) =
     (if isLead a \<and> isTrail b
      then (0x10000 + (a - 0xD800) * 0x400 + (b - 0xDC00)) # codePoints us
      else a # codePoints (b # us))"
| "codePoints us = us"

definition codeUnits :: "nat \<Rightarrow> jsstring" where
  "codeUnits cp =
     (if cp \<le> 0xFFFF then [cp]
      else [0xD800 + (cp - 0x10000) div 0x400, 0xDC00 + (cp - 0x10000) mod 0x400])"

text \<open>
  A cased letter after any number of case-ignorable characters, read from the front of
  the list.
\<close>

fun casedAcross :: "UCD \<Rightarrow> nat list \<Rightarrow> bool" where
  "casedAcross u [] = False"
| "casedAcross u (c # cs) = (cased u c \<or> (caseIgnorable u c \<and> casedAcross u cs))"

text \<open>\<open>prior\<close> are the code points before the sigma, nearest first; \<open>rest\<close> those after.\<close>

definition finalSigma :: "UCD \<Rightarrow> nat list \<Rightarrow> nat list \<Rightarrow> bool" where
  "finalSigma u prior rest = (casedAcross u prior \<and> \<not> casedAcross u rest)"

definition lowercaseMapping :: "UCD \<Rightarrow> nat list \<Rightarrow> nat \<Rightarrow> nat list \<Rightarrow> nat list" where
  "lowercaseMapping u prior c rest =
     (if c = 0x3A3 \<and> finalSigma u prior rest then [0x3C2]
      else if c = 0x130 then [0x69, 0x307]
      else [simpleLower u c])"

fun toLowercase :: "UCD \<Rightarrow> nat list \<Rightarrow> nat list \<Rightarrow> nat list" where
  "toLowercase u prior [] = []"
| "toLowercase u prior (c # rest) =
     lowercaseMapping u prior c rest @ toLowercase u (c # prior) rest"

definition toLowerCase :: "UCD \<Rightarrow> jsstring \<Rightarrow> jsstring" where
  "toLowerCase u s = concat (map codeUnits (toLowercase u [] (codePoints s)))"

text \<open>\<^verbatim>\<open>s.includes(q)\<close>: does \<open>q\<close> start at some position of \<open>s\<close>?\<close>

fun includes_str :: "'a list \<Rightarrow> 'a list \<Rightarrow> bool" where
  "includes_str [] q = (q = [])"
| "includes_str (c # cs) q = (prefix q (c # cs) \<or> includes_str cs q)"

section \<open>Data model (lib/types.ts)\<close>

datatype Presence = online | offline

datatype Delivery = sent | delivered | read

record Contact =
  id_c :: string
  name :: jsstring
  avatar :: string
  status_c :: Presence
  lastMessage :: string
  lastMessageTime :: string

record Message =
  id_m :: string
  content :: string
  senderId :: string
  timestamp :: int
  status :: Delivery

section \<open>Contact list (components/contact-list.tsx)\<close>

text \<open>
  \<^verbatim>\<open>contacts.filter((contact) =>
     contact.name.toLowerCase().includes(searchQuery.toLowerCase()))\<close>
\<close>

definition filteredContacts :: "UCD \<Rightarrow> Contact list \<Rightarrow> jsstring \<Rightarrow> Contact list" where
  "filteredContacts u contacts searchQuery =
     filter (\<lambda>contact. includes_str (toLowerCase u (name contact)) (toLowerCase u searchQuery))
       contacts"

section \<open>Messaging interface (components/messaging-interface.tsx)\<close>

text \<open>
  \<^verbatim>\<open>Record<string, Message[]>\<close>: the message store is a plain object. The map holds its
  own properties, keyed by contact id; behind them every read also sees the properties
  that a plain object inherits from \<^verbatim>\<open>Object.prototype\<close>.
\<close>

type_synonym Store = "string \<rightharpoonup> Message list"

definition objectPrototypeKeys :: "string list" where
  "objectPrototypeKeys =
     [''constructor'', ''__defineGetter__'', ''__defineSetter__'', ''hasOwnProperty'',
      ''__lookupGetter__'', ''__lookupSetter__'', ''isPrototypeOf'',
      ''propertyIsEnumerable'', ''toString'', ''valueOf'', ''__proto__'',
      ''toLocaleString'']"

text \<open>
  What the read \<^verbatim>\<open>prev[k]\<close> gives: \<^verbatim>\<open>undefined\<close>, an array of the store's own, or an
  inherited value (a function, or the prototype object for \<^verbatim>\<open>__proto__\<close>), which is
  truthy and not iterable.
\<close>

datatype Lookup = Undefined | Array "Message list" | Inherited

definition getProp :: "Store \<Rightarrow> string \<Rightarrow> Lookup" where
  "getProp prev k =
     (case prev k of
        Some ms \<Rightarrow> Array ms
      | None \<Rightarrow> if k \<in> set objectPrototypeKeys then Inherited else Undefined)"

datatype error = TypeError

text \<open>
  The template literal \<^verbatim>\<open>`msg-${Date.now()}`\<close> prints the clock reading, an integer
  number of milliseconds, in decimal.
\<close>

fun digits :: "nat \<Rightarrow> string" where
  "digits n =
     (if n < 10 then [char_of (48 + n)]
      else digits (n div 10) @ [char_of (48 + n mod 10)])"

declare digits.simps [simp del]

definition numberToString :: "int \<Rightarrow> string" where
  "numberToString i =
     (if i < 0 then CHR ''-'' # digits (nat (- i)) else digits (nat i))"

text \<open>
  \<open>handleSendMessage\<close> closes over \<open>selectedContact\<close> of the render that created it;
  \<open>now\<close> is the reading of \<^verbatim>\<open>Date.now()\<close>, \<open>stamp\<close> that of \<^verbatim>\<open>new Date()\<close>, and
  \<open>prev\<close> the store the functional update of \<open>setMessages\<close> is applied to. The result
  is that of the update \<^verbatim>\<open>{...prev, [id]: [...(prev[id] || []), newMessage]}\<close>: spreading
  an inherited value throws, the error surfaces when the state is computed, and the
  interface is gone.
\<close>

definition newMessage :: "string \<Rightarrow> int \<Rightarrow> int \<Rightarrow> Message" where
  "newMessage c now stamp =
     \<lparr>id_m = ''msg-'' @ numberToString now, content = c, senderId = ''me'',
      timestamp = stamp, status = sent\<rparr>"

definition handleSendMessage ::
  "Contact option \<Rightarrow> string \<Rightarrow> int \<Rightarrow> int \<Rightarrow> Store \<Rightarrow> error + Store" where
  "handleSendMessage selected c now stamp prev =
     (case selected of
        None \<Rightarrow> Inr prev
      | Some sc \<Rightarrow>
          if trim c = [] then Inr prev
          else (case getProp prev (id_c sc) of
                  Undefined \<Rightarrow> Inr (prev(id_c sc \<mapsto> [] @ [newMessage c now stamp]))
                | Array ms \<Rightarrow> Inr (prev(id_c sc \<mapsto> ms @ [newMessage c now stamp]))
                | Inherited \<Rightarrow> Inl TypeError))"

text \<open>
  A pending \<^verbatim>\<open>setTimeout\<close> callback of the composer. It closes over the draft
  \<open>message\<close> and over \<open>onSendMessage\<close>, hence over the contact selected when
  \<open>handleSend\<close> ran.
\<close>

record Timeout =
  t_message :: string
  t_selectedContact :: "Contact option"

text \<open>
  The state of \<open>MessagingInterface\<close> and of the \<open>MessageInput\<close> it mounts.
  \<open>isMobile\<close> is what the hook \<open>useMobile\<close> reports; \<open>timers\<close> are the pending
  callbacks, oldest first (all have the same delay, so they fire in this order).
\<close>

record UI =
  contacts :: "Contact list"
  messages :: Store
  selectedContact :: "Contact option"
  showSidebar :: bool
  isMobile :: bool
  message :: string
  isSending :: bool
  timers :: "Timeout list"

record KeyboardEvent =
  key :: string
  shiftKey :: bool
  ctrlKey :: bool
  altKey :: bool
  metaKey :: bool

subsection \<open>Composer (components/message-input.tsx)\<close>

definition setMessage :: "string \<Rightarrow> UI \<Rightarrow> UI" where
  "setMessage v ui = ui\<lparr>message := v\<rparr>"

definition handleSend :: "UI \<Rightarrow> UI" where
  "handleSend ui =
     (if trim (message ui) \<noteq> []
      then ui\<lparr>isSending := True,
              timers := timers ui @
                [\<lparr>t_message = message ui, t_selectedContact = selectedContact ui\<rparr>]\<rparr>
      else ui)"

text \<open>The callback of \<open>setTimeout\<close>, run for the oldest pending timer.\<close>

definition timeoutFires :: "int \<Rightarrow> int \<Rightarrow> UI \<Rightarrow> error + UI" where
  "timeoutFires now stamp ui =
     (case timers ui of
        [] \<Rightarrow> Inr ui
      | t # ts \<Rightarrow>
          (case handleSendMessage (t_selectedContact t) (t_message t) now stamp (messages ui) of
             Inl e \<Rightarrow> Inl e
           | Inr st \<Rightarrow>
               Inr (ui\<lparr>messages := st, message := [], isSending := False, timers := ts\<rparr>)))"

text \<open>
  \<open>handleKeyDown\<close> returns whether it called \<open>preventDefault\<close>, and the new state.
\<close>

definition handleKeyDown :: "KeyboardEvent \<Rightarrow> UI \<Rightarrow> bool \<times> UI" where
  "handleKeyDown e ui =
     (if key e = ''Enter'' \<and> \<not> shiftKey e then (True, handleSend ui) else (False, ui))"

text \<open>
  The send button has \<^verbatim>\<open>disabled={!message.trim() || isSending}\<close>; a disabled button
  does not run \<open>onClick\<close>.
\<close>

definition sendDisabled :: "UI \<Rightarrow> bool" where
  "sendDisabled ui = (trim (message ui) = [] \<or> isSending ui)"

definition onClickSend :: "UI \<Rightarrow> UI" where
  "onClickSend ui = (if sendDisabled ui then ui else handleSend ui)"

subsection \<open>Selecting a contact\<close>

definition setSelectedContact :: "Contact \<Rightarrow> UI \<Rightarrow> UI" where
  "setSelectedContact c ui = ui\<lparr>selectedContact := Some c\<rparr>"

text \<open>\<^verbatim>\<open>onCloseSidebar={() => isMobile && setShowSidebar(false)}\<close>\<close>

definition closeSidebar :: "UI \<Rightarrow> UI" where
  "closeSidebar ui = (if isMobile ui then ui\<lparr>showSidebar := False\<rparr> else ui)"

text \<open>
  \<open>handleContactClick\<close> of the contact list, with its two callback props; the second
  is optional.
\<close>

definition handleContactClick ::
  "(Contact \<Rightarrow> UI \<Rightarrow> UI) \<Rightarrow> (UI \<Rightarrow> UI) option \<Rightarrow> Contact \<Rightarrow> UI \<Rightarrow> UI" where
  "handleContactClick onSelectContact onCloseSidebar c ui =
     (let ui1 = onSelectContact c ui
      in case onCloseSidebar of None \<Rightarrow> ui1 | Some f \<Rightarrow> f ui1)"

text \<open>The click as \<open>MessagingInterface\<close> wires it.\<close>

definition contactClick :: "Contact \<Rightarrow> UI \<Rightarrow> UI" where
  "contactClick c ui = handleContactClick setSelectedContact (Some closeSidebar) c ui"

text \<open>The menu button: \<^verbatim>\<open>setShowSidebar(!showSidebar)\<close>.\<close>

definition toggleSidebar :: "UI \<Rightarrow> UI" where
  "toggleSidebar ui = ui\<lparr>showSidebar := \<not> showSidebar ui\<rparr>"

subsection \<open>Events of the page\<close>

datatype Event =
    Change string
  | KeyDown KeyboardEvent
  | ClickSend
  | TimeoutFires int int
  | ContactClick Contact
  | ClickMenu
  | Resize bool

text \<open>One event; \<open>Inl\<close> when the handler's state update throws.\<close>

fun step :: "Event \<Rightarrow> UI \<Rightarrow> error + UI" where
  "step (Change v) ui = Inr (setMessage v ui)"
| "step (KeyDown e) ui = Inr (snd (handleKeyDown e ui))"
| "step ClickSend ui = Inr (onClickSend ui)"
| "step (TimeoutFires now stamp) ui = timeoutFires now stamp ui"
| "step (ContactClick c) ui = Inr (contactClick c ui)"
| "step ClickMenu ui = Inr (toggleSidebar ui)"
| "step (Resize b) ui = Inr (ui\<lparr>isMobile := b\<rparr>)"

text \<open>A run of events stops at the first error.\<close>

fun run :: "Event list \<Rightarrow> UI \<Rightarrow> error + UI" where
  "run [] ui = Inr ui"
| "run (e # evs) ui = (case step e ui of Inl x \<Rightarrow> Inl x | Inr ui' \<Rightarrow> run evs ui')"

fun isTimeout :: "Event \<Rightarrow> bool" where
  "isTimeout (TimeoutFires now stamp) = True"
| "isTimeout e = False"

section \<open>Remote echo client (frontend/app/page.tsx)\<close>

record Payload =
  data_text :: string

text \<open>
  \<open>msg\<close> and \<open>messages\<close> of the page (the latter named \<open>transcript\<close> here, the
  other prototype has a \<open>messages\<close> too), and what was handed to \<open>socket.emit\<close>.
\<close>

record Chat =
  msg :: string
  transcript :: "string list"
  emitted :: "(string \<times> string) list"

definition setMsg :: "string \<Rightarrow> Chat \<Rightarrow> Chat" where
  "setMsg v s = s\<lparr>msg := v\<rparr>"

definition send :: "Chat \<Rightarrow> Chat" where
  "send s =
     (if trim (msg s) = [] then s
      else s\<lparr>emitted := emitted s @ [(''message'', msg s)],
             transcript := transcript s @ [''You: '' @ msg s],
             msg := []\<rparr>)"

text \<open>The handler of the inbound \<open>receive\<close> event.\<close>

definition receive :: "Payload \<Rightarrow> Chat \<Rightarrow> Chat" where
  "receive d s = s\<lparr>transcript := transcript s @ [''Friend: '' @ data_text d]\<rparr>"

section \<open>Notions of the specification\<close>

text \<open>A draft is blank when it is empty or has white space only.\<close>

definition blank :: "string \<Rightarrow> bool" where
  "blank s = list_all isWhiteSpace s"

text \<open>
  The conversation of a contact in a store: the sequence that the store holds as its
  own entry under the contact's id, empty when it holds none.
\<close>

definition conversation :: "Store \<Rightarrow> string \<Rightarrow> Message list" where
  "conversation st k = (case st k of None \<Rightarrow> [] | Some ms \<Rightarrow> ms)"

text \<open>Ids are unique within each conversation of a store.\<close>

definition idsUnique :: "Store \<Rightarrow> bool" where
  "idsUnique st = (\<forall>k. distinct (map id_m (conversation st k)))"

section \<open>Sample data\<close>

text \<open>
  Rows of the character database: the letters of Basic Latin, the Greek letters from
  alpha to omega in both cases, and the case-ignorable marks of Basic Latin. The examples
  use these characters only; every other row is left caseless here.
\<close>

definition sampleRows :: UCD where
  "sampleRows =
     \<lparr>simpleLower =
        (\<lambda>c. if (0x41 \<le> c \<and> c \<le> 0x5A) \<or> (0x391 \<le> c \<and> c \<le> 0x3A9 \<and> c \<noteq> 0x3A2)
             then c + 0x20 else c),
      cased =
        (\<lambda>c. (0x41 \<le> c \<and> c \<le> 0x5A) \<or> (0x61 \<le> c \<and> c \<le> 0x7A)
             \<or> (0x391 \<le> c \<and> c \<le> 0x3A9 \<and> c \<noteq> 0x3A2) \<or> (0x3B1 \<le> c \<and> c \<le> 0x3C9)),
      caseIgnorable = (\<lambda>c. c \<in> {0x27, 0x2E, 0x3A, 0x5E, 0x60})\<rparr>"

definition alice :: Contact where
  "alice = \<lparr>id_c = ''1'', name = units ''Alice'', avatar = ''/a.png'', status_c = online,
             lastMessage = ''Hello'', lastMessageTime = ''10:30''\<rparr>"

definition bob :: Contact where
  "bob = \<lparr>id_c = ''2'', name = units ''Bob'', avatar = ''/b.png'', status_c = offline,
           lastMessage = ''Bye'', lastMessageTime = ''09:15''\<rparr>"

text \<open>A contact whose id is the name of a property that every plain object inherits.\<close>

definition carl :: Contact where
  "carl = \<lparr>id_c = ''constructor'', name = units ''Carl'', avatar = ''/c.png'',
            status_c = online, lastMessage = [], lastMessageTime = []\<rparr>"

text \<open>A contact with the Greek name \<open>U+0391 U+03A3\<close>: capital alpha, capital sigma.\<close>

definition alphaSigma :: Contact where
  "alphaSigma = \<lparr>id_c = ''4'', name = [0x391, 0x3A3], avatar = ''/d.png'',
                  status_c = online, lastMessage = [], lastMessageTime = []\<rparr>"

definition hello :: Message where
  "hello = \<lparr>id_m = ''m1'', content = ''Hello'', senderId = ''1'', timestamp = 0,
             status = read\<rparr>"

text \<open>A phone just after start: first contact selected, sidebar open, empty draft.\<close>

definition ui0 :: UI where
  "ui0 = \<lparr>contacts = [alice, bob], messages = [''1'' \<mapsto> [hello]],
           selectedContact = Some alice, showSidebar = True, isMobile = True,
           message = [], isSending = False, timers = []\<rparr>"

text \<open>The same with Carl in the directory.\<close>

definition ui1 :: UI where
  "ui1 = ui0\<lparr>contacts := [alice, bob, carl]\<rparr>"

text \<open>No contacts at all, hence none selected; a draft is typed.\<close>

definition nobody :: UI where
  "nobody = ui0\<lparr>contacts := [], selectedContact := None, message := ''hi''\<rparr>"

definition enter :: KeyboardEvent where
  "enter = \<lparr>key = ''Enter'', shiftKey = False, ctrlKey = False, altKey = False,
             metaKey = False\<rparr>"

definition ctrlEnter :: KeyboardEvent where
  "ctrlEnter = enter\<lparr>ctrlKey := True\<rparr>"

definition shiftEnter :: KeyboardEvent where
  "shiftEnter = enter\<lparr>shiftKey := True\<rparr>"

definition chat0 :: Chat where
  "chat0 = \<lparr>msg = '' hi '', transcript = [''Friend: yo''], emitted = []\<rparr>"

section \<open>Properties of the string functions\<close>

lemma includes_sublist: "includes_str s q = sublist q s"
  by (induction s) (auto simp: sublist_Cons_right)

lemma dropWhile_all_iff: "(\<forall>x\<in>set (dropWhile P xs). P x) = (\<forall>x\<in>set xs. P x)"
proof
  assume a: "\<forall>x\<in>set (dropWhile P xs). P x"
  have "dropWhile P xs = []"
  proof (rule ccontr)
    assume "dropWhile P xs \<noteq> []"
    then have "\<not> P (hd (dropWhile P xs))" "hd (dropWhile P xs) \<in> set (dropWhile P xs)"
      by (simp_all add: hd_dropWhile)
    with a show False by blast
  qed
  then show "\<forall>x\<in>set xs. P x"
    by simp
next
  assume "\<forall>x\<in>set xs. P x"
  then show "\<forall>x\<in>set (dropWhile P xs). P x"
    by (meson set_dropWhileD)
qed

text \<open>The guard \<^verbatim>\<open>message.trim()\<close> is falsy exactly on blank drafts.\<close>

lemma trim_empty_iff: "(trim s = []) = blank s"
proof -
  have "(trim s = []) = (\<forall>x\<in>set (dropWhile isWhiteSpace s). isWhiteSpace x)"
    by (simp add: trim_def)
  then show ?thesis
    by (simp add: dropWhile_all_iff blank_def list_all_iff)
qed

lemmas js_eval = trim_def isWhiteSpace_def char_of_def bit_Suc_0_iff

lemmas lower_eval =
  toLowerCase_def codeUnits_def lowercaseMapping_def finalSigma_def isLead_def isTrail_def
  units_def sampleRows_def

section \<open>The contact filter\<close>

text \<open>
  The two lower-case forms that differ: for every character database with Unicode's rows
  for capital alpha and capital sigma, the sigma at the end of a word becomes the final
  small sigma, the sigma on its own the plain small sigma.
\<close>

lemma final_sigma:
  assumes "simpleLower u 0x391 = 0x3B1" and "simpleLower u 0x3A3 = 0x3C3" and "cased u 0x391"
  shows "toLowerCase u [0x391, 0x3A3] = [0x3B1, 0x3C2]"
    and "toLowerCase u [0x3A3] = [0x3C3]"
  using assms
  by (simp_all add: toLowerCase_def codeUnits_def lowercaseMapping_def finalSigma_def
      isLead_def isTrail_def)

text \<open>
  C2. The filter is to return exactly the contacts whose name contains the query up to
  letter case. The name \<open>U+0391 U+03A3\<close> contains the query \<open>U+03A3\<close> as it stands, yet
  the filter drops the contact: \<open>toLowerCase\<close> turns the sigma at the end of the name
  into \<open>U+03C2\<close> and the sigma of the query into \<open>U+03C3\<close>, and the lowered name does not
  include the lowered query.
\<close>

theorem C2_final_sigma:
  "sublist [0x3A3] (name alphaSigma)
   \<and> toLowerCase sampleRows (name alphaSigma) = [0x3B1, 0x3C2]
   \<and> toLowerCase sampleRows [0x3A3] = [0x3C3]
   \<and> filteredContacts sampleRows [alice, alphaSigma] [0x3A3] = []"
proof -
  have rows: "simpleLower sampleRows 0x391 = 0x3B1" "simpleLower sampleRows 0x3A3 = 0x3C3"
    "cased sampleRows 0x391"
    by (simp_all add: sampleRows_def)
  have n: "name alphaSigma = [0x391, 0x3A3]"
    by (simp add: alphaSigma_def)
  have s: "sublist [0x3A3] (name alphaSigma)"
    by (simp add: n sublist_Cons_right)
  have a: "toLowerCase sampleRows (name alice) = units ''alice''"
    by (simp add: alice_def lower_eval)
  have "filteredContacts sampleRows [alice, alphaSigma] [0x3A3] = []"
    by (simp add: filteredContacts_def n a final_sigma [OF rows] units_def)
  with s n final_sigma [OF rows] show ?thesis
    by simp
qed

text \<open>What the filter does on every input.\<close>

lemma toLowerCase_Nil: "toLowerCase u [] = []"
  by (simp add: toLowerCase_def)

lemma filter_contains_lowered:
  "filteredContacts u cs q =
     filter (\<lambda>c. sublist (toLowerCase u q) (toLowerCase u (name c))) cs"
  by (simp add: filteredContacts_def includes_sublist)

lemma filter_keeps_order: "subseq (filteredContacts u cs q) cs"
  by (simp add: filteredContacts_def)

lemma filter_empty_query: "filteredContacts u cs [] = cs"
  by (simp add: filter_contains_lowered toLowerCase_Nil)

text \<open>
  The example of the specification: the query \<open>al\<close> keeps Alice and drops Bob, and so
  does \<open>AL\<close>.
\<close>

lemma filter_example:
  "filteredContacts sampleRows [alice, bob] (units ''al'') = [alice]"
  "filteredContacts sampleRows [alice, bob] (units ''AL'') = [alice]"
  by (simp_all add: filteredContacts_def alice_def bob_def lower_eval)

section \<open>Submitting a draft\<close>

lemmas ui_eval =
  setMessage_def handleKeyDown_def handleSend_def onClickSend_def sendDisabled_def
  contactClick_def handleContactClick_def setSelectedContact_def closeSidebar_def
  toggleSidebar_def timeoutFires_def handleSendMessage_def getProp_def
  objectPrototypeKeys_def Let_def

lemma conversation_upd:
  "conversation (st(k \<mapsto> v)) k' = (if k' = k then v else conversation st k')"
  by (simp add: conversation_def)

text \<open>An event other than a firing cannot fail, and leaves store and pending timers.\<close>

lemma step_other:
  "\<not> isTimeout e \<Longrightarrow>
   \<exists>ui' ts'. step e ui = Inr ui' \<and> messages ui' = messages ui \<and> timers ui' = timers ui @ ts'"
  by (cases e) (simp_all add: ui_eval)

lemma timers_timeout:
  "timers ui = p # ps \<Longrightarrow> timeoutFires now stamp ui = Inr ui' \<Longrightarrow> timers ui' = ps"
  by (auto simp: timeoutFires_def split: sum.splits)

text \<open>
  A timer behind \<open>n\<close> older ones is the oldest after a run with \<open>n\<close> firings.
\<close>

lemma run_reaches_timer:
  "timers ui = ps @ t # ts \<Longrightarrow> length (filter isTimeout evs) = length ps
   \<Longrightarrow> run evs ui = Inr ui' \<Longrightarrow> \<exists>ts'. timers ui' = t # ts'"
proof (induction evs arbitrary: ui ps ts)
  case Nil
  then show ?case by simp
next
  case (Cons e evs)
  from Cons.prems(3) obtain ui1 where s: "step e ui = Inr ui1" and r: "run evs ui1 = Inr ui'"
    by (auto split: sum.splits)
  show ?case
  proof (cases "isTimeout e")
    case False
    then obtain ts' where "timers ui1 = timers ui @ ts'"
      using step_other [of e ui] s by auto
    with Cons.prems(1) have "timers ui1 = ps @ t # (ts @ ts')"
      by simp
    moreover from False Cons.prems(2) have "length (filter isTimeout evs) = length ps"
      by simp
    ultimately show ?thesis
      using r by (rule Cons.IH)
  next
    case True
    then obtain now stamp where e: "e = TimeoutFires now stamp"
      by (cases e) simp_all
    from True Cons.prems(2) obtain p ps' where ps: "ps = p # ps'"
      by (cases ps) simp_all
    from Cons.prems(1) have "timers ui = p # (ps' @ t # ts)"
      by (simp add: ps)
    moreover from s have "timeoutFires now stamp ui = Inr ui1"
      by (simp add: e)
    ultimately have "timers ui1 = ps' @ t # ts"
      by (rule timers_timeout)
    moreover from True Cons.prems(2) ps have "length (filter isTimeout evs) = length ps'"
      by simp
    ultimately show ?thesis
      using r by (rule Cons.IH)
  qed
qed

lemma timers_handleSend:
  "\<not> blank (message ui) \<Longrightarrow>
   timers (handleSend ui) =
     timers ui @ [\<lparr>t_message = message ui, t_selectedContact = selectedContact ui\<rparr>]"
  by (simp add: handleSend_def trim_empty_iff)

text \<open>The update of the store: it throws exactly on an inherited key.\<close>

lemma handleSendMessage_append:
  "\<not> blank c \<Longrightarrow>
   handleSendMessage (Some sc) c now stamp prev =
     (if prev (id_c sc) = None \<and> id_c sc \<in> set objectPrototypeKeys then Inl TypeError
      else Inr (prev(id_c sc \<mapsto> conversation prev (id_c sc) @ [newMessage c now stamp])))"
  by (simp add: handleSendMessage_def getProp_def conversation_def trim_empty_iff
      split: option.split)

lemma timeoutFires_oldest:
  "timers ui = t # ts \<Longrightarrow>
   timeoutFires now stamp ui =
     (case handleSendMessage (t_selectedContact t) (t_message t) now stamp (messages ui) of
        Inl e \<Rightarrow> Inl e
      | Inr st \<Rightarrow> Inr (ui\<lparr>messages := st, message := [], isSending := False, timers := ts\<rparr>))"
  by (simp add: timeoutFires_def)

text \<open>The delivery that belongs to a submit.\<close>

lemma submit_delivery:
  assumes "\<not> blank (message ui)"
    and "length (filter isTimeout evs) = length (timers ui)"
    and "run evs (handleSend ui) = Inr before"
  shows "\<exists>ts'. timers before = \<lparr>t_message = message ui, t_selectedContact = selectedContact ui\<rparr> # ts'
           \<and> timeoutFires now stamp before =
             (case handleSendMessage (selectedContact ui) (message ui) now stamp (messages before) of
                Inl e \<Rightarrow> Inl e
              | Inr st \<Rightarrow>
                  Inr (before\<lparr>messages := st, message := [], isSending := False, timers := ts'\<rparr>))"
proof -
  let ?t = "\<lparr>t_message = message ui, t_selectedContact = selectedContact ui\<rparr>"
  have "timers (handleSend ui) = timers ui @ ?t # []"
    using assms(1) by (simp add: timers_handleSend)
  then obtain ts' where ts': "timers before = ?t # ts'"
    using run_reaches_timer [OF _ assms(2) assms(3)] by blast
  then show ?thesis
    by (simp add: timeoutFires_oldest)
qed

text \<open>
  Away from the inherited keys an accepted submit does what it is meant to: the delivery
  appends one message of the local user, with status \<open>sent\<close>, to the conversation of the
  contact selected at the submit, changes no other conversation and empties the draft.
\<close>

lemma accepted_submit_appends:
  assumes "\<not> blank (message ui)"
    and "selectedContact ui = Some c"
    and "length (filter isTimeout evs) = length (timers ui)"
    and "run evs (handleSend ui) = Inr before"
    and "messages before (id_c c) \<noteq> None \<or> id_c c \<notin> set objectPrototypeKeys"
  shows "\<exists>after m. timeoutFires now stamp before = Inr after
           \<and> conversation (messages after) (id_c c) =
               conversation (messages before) (id_c c) @ [m]
           \<and> senderId m = ''me'' \<and> status m = sent
           \<and> (\<forall>k. k \<noteq> id_c c \<longrightarrow> messages after k = messages before k)
           \<and> message after = []"
proof -
  obtain ts' where f0: "timeoutFires now stamp before =
      (case handleSendMessage (selectedContact ui) (message ui) now stamp (messages before) of
         Inl e \<Rightarrow> Inl e
       | Inr st \<Rightarrow>
           Inr (before\<lparr>messages := st, message := [], isSending := False, timers := ts'\<rparr>))"
    using submit_delivery [OF assms(1,3,4), of now stamp] by blast
  have "timeoutFires now stamp before =
      Inr (before\<lparr>messages := (messages before)(id_c c \<mapsto>
              conversation (messages before) (id_c c) @ [newMessage (message ui) now stamp]),
            message := [], isSending := False, timers := ts'\<rparr>)"
    using assms(1,5) by (auto simp: f0 assms(2) handleSendMessage_append)
  then show ?thesis
    by (simp add: conversation_upd newMessage_def)
qed


text \<open>Alice's id is an ordinary key: the same run with her delivers.\<close>

lemma submit_example:
  "run [Change ''hi'', ClickSend, ContactClick bob, Change ''more'', TimeoutFires 5 6] ui0 =
     Inr (ui0\<lparr>messages := [''1'' \<mapsto> [hello, newMessage ''hi'' 5 6]],
              selectedContact := Some bob, showSidebar := False\<rparr>)"
  by (simp add: ui0_def alice_def bob_def ui_eval js_eval)

text \<open>
  C3. While a submit is in flight a further submit by whatever trigger is to be
  rejected. The button is disabled by the sending flag, but \<open>handleSend\<close> itself does
  not read the flag, so the Enter key submits again: after \<open>hi\<close> is typed and Enter is
  pressed twice during the delay (the sending flag being set after the first), both
  timers deliver and the conversation has two new messages.
\<close>

theorem C3_enter_twice:
  "run [Change ''hi'', KeyDown enter] ui0 =
     Inr (ui0\<lparr>message := ''hi'', isSending := True,
              timers := [\<lparr>t_message = ''hi'', t_selectedContact = Some alice\<rparr>]\<rparr>)
   \<and> run [Change ''hi'', KeyDown enter, KeyDown enter, TimeoutFires 5 6, TimeoutFires 7 8] ui0 =
     Inr (ui0\<lparr>messages := [''1'' \<mapsto> [hello, newMessage ''hi'' 5 6, newMessage ''hi'' 7 8]]\<rparr>)
   \<and> conversation [''1'' \<mapsto> [hello, newMessage ''hi'' 5 6, newMessage ''hi'' 7 8]] ''1'' =
       conversation (messages ui0) ''1'' @ [newMessage ''hi'' 5 6, newMessage ''hi'' 7 8]"
  by (simp add: ui0_def alice_def enter_def conversation_def ui_eval js_eval)

text \<open>The sibling path: a click while sending does nothing.\<close>

lemma click_while_sending: "isSending ui \<Longrightarrow> onClickSend ui = ui"
  by (simp add: onClickSend_def sendDisabled_def)

section \<open>The Enter key\<close>

text \<open>
  Against C4 as stated: Enter with the Control key held is Enter with a modifier, and
  it submits (the default action is prevented and a timer is pending).
\<close>

theorem C4_ctrl_enter_counterexample:
  "ctrlKey ctrlEnter \<and> key ctrlEnter = ''Enter''
   \<and> handleKeyDown ctrlEnter (setMessage ''hi'' ui0) =
       (True, (setMessage ''hi'' ui0)\<lparr>isSending := True,
          timers := [\<lparr>t_message = ''hi'', t_selectedContact = Some alice\<rparr>]\<rparr>)"
  by (simp add: ctrlEnter_def enter_def handleKeyDown_def handleSend_def setMessage_def
      ui0_def js_eval)

text \<open>
  C4, amended. Enter without Shift, whatever the other modifier keys, prevents the
  default action and submits the draft (a timer for a draft that is not blank); Enter
  with Shift held submits nothing and leaves the default action, the newline of the
  text area, in place.
\<close>

theorem C4_enter_key:
  assumes "key e = ''Enter''"
  shows "(\<not> shiftKey e \<longrightarrow>
            handleKeyDown e ui = (True, handleSend ui)
            \<and> (\<not> blank (message ui) \<longrightarrow>
                 timers (handleSend ui) =
                   timers ui @ [\<lparr>t_message = message ui,
                                 t_selectedContact = selectedContact ui\<rparr>]))
         \<and> (shiftKey e \<longrightarrow> handleKeyDown e ui = (False, ui))"
  using assms by (simp add: handleKeyDown_def timers_handleSend)

theorem C4_enter_key_witness:
  "key shiftEnter = ''Enter'' \<and> shiftKey shiftEnter
   \<and> handleKeyDown shiftEnter (setMessage ''hi'' ui0) = (False, setMessage ''hi'' ui0)
   \<and> key ctrlEnter = ''Enter'' \<and> \<not> shiftKey ctrlEnter
   \<and> \<not> blank (message (setMessage ''hi'' ui0))
   \<and> handleKeyDown ctrlEnter (setMessage ''hi'' ui0) = (True, handleSend (setMessage ''hi'' ui0))
   \<and> timers (handleSend (setMessage ''hi'' ui0)) =
       timers (setMessage ''hi'' ui0) @
         [\<lparr>t_message = message (setMessage ''hi'' ui0),
           t_selectedContact = selectedContact (setMessage ''hi'' ui0)\<rparr>]"
proof -
  have k1: "key shiftEnter = ''Enter''" and s1: "shiftKey shiftEnter"
    by (simp_all add: shiftEnter_def enter_def)
  have k2: "key ctrlEnter = ''Enter''" and s2: "\<not> shiftKey ctrlEnter"
    by (simp_all add: ctrlEnter_def enter_def)
  have b: "\<not> blank (message (setMessage ''hi'' ui0))"
    by (simp add: setMessage_def blank_def isWhiteSpace_def)
  from C4_enter_key [OF k1, of "setMessage ''hi'' ui0"]
       C4_enter_key [OF k2, of "setMessage ''hi'' ui0"] k1 s1 k2 s2 b
  show ?thesis by blast
qed

section \<open>The message store\<close>

text \<open>
  C5. A delivery that appends a message (the oldest timer holds a draft that is not
  blank and a contact \<open>c\<close>, and the update returns) changes the conversation of \<open>c\<close>
  only: the store is the same at every other key, so the conversation of every contact
  with another id is unchanged; and the conversation of \<open>c\<close> is the old one with the
  new message at the end, every earlier entry (its status too) as it was. The update
  returns unless the id of \<open>c\<close> is an inherited key that the store does not hold itself.
\<close>

theorem C5_frame:
  assumes "timers ui = t # ts"
    and "t_selectedContact t = Some c"
    and "\<not> blank (t_message t)"
  shows "((\<exists>after. timeoutFires now stamp ui = Inr after) =
            (messages ui (id_c c) \<noteq> None \<or> id_c c \<notin> set objectPrototypeKeys))
         \<and> (\<forall>after. timeoutFires now stamp ui = Inr after \<longrightarrow>
              (let old = conversation (messages ui) (id_c c);
                   new = conversation (messages after) (id_c c)
               in (\<forall>k. k \<noteq> id_c c \<longrightarrow> messages after k = messages ui k)
                  \<and> (\<forall>d. id_c d \<noteq> id_c c \<longrightarrow>
                        conversation (messages after) (id_c d) =
                        conversation (messages ui) (id_c d))
                  \<and> new = old @ [newMessage (t_message t) now stamp]
                  \<and> take (length old) new = old
                  \<and> (\<forall>i<length old. new ! i = old ! i \<and> status (new ! i) = status (old ! i))))"
proof -
  have fire: "timeoutFires now stamp ui =
      (if messages ui (id_c c) = None \<and> id_c c \<in> set objectPrototypeKeys then Inl TypeError
       else Inr (ui\<lparr>messages := (messages ui)(id_c c \<mapsto>
                      conversation (messages ui) (id_c c) @ [newMessage (t_message t) now stamp]),
                    message := [], isSending := False, timers := ts\<rparr>))"
    using assms by (simp add: timeoutFires_oldest handleSendMessage_append)
  have returns: "(\<exists>after. timeoutFires now stamp ui = Inr after) =
      (messages ui (id_c c) \<noteq> None \<or> id_c c \<notin> set objectPrototypeKeys)"
    by (auto simp: fire)
  have frame: "let old = conversation (messages ui) (id_c c);
                   new = conversation (messages after) (id_c c)
               in (\<forall>k. k \<noteq> id_c c \<longrightarrow> messages after k = messages ui k)
                  \<and> (\<forall>d. id_c d \<noteq> id_c c \<longrightarrow>
                        conversation (messages after) (id_c d) =
                        conversation (messages ui) (id_c d))
                  \<and> new = old @ [newMessage (t_message t) now stamp]
                  \<and> take (length old) new = old
                  \<and> (\<forall>i<length old. new ! i = old ! i \<and> status (new ! i) = status (old ! i))"
    if "timeoutFires now stamp ui = Inr after" for after
  proof -
    from that have "after = ui\<lparr>messages := (messages ui)(id_c c \<mapsto>
                      conversation (messages ui) (id_c c) @ [newMessage (t_message t) now stamp]),
                    message := [], isSending := False, timers := ts\<rparr>"
      by (simp add: fire split: if_splits)
    then show ?thesis
      by (simp add: Let_def conversation_upd nth_append)
  qed
  from returns frame show ?thesis
    by blast
qed

theorem C5_frame_witness:
  "timers (handleSend (setMessage ''hi'' ui0)) =
     \<lparr>t_message = ''hi'', t_selectedContact = Some alice\<rparr> # []
   \<and> t_selectedContact \<lparr>t_message = ''hi'', t_selectedContact = Some alice\<rparr> = Some alice
   \<and> \<not> blank (t_message \<lparr>t_message = ''hi'', t_selectedContact = Some alice\<rparr>)
   \<and> messages (handleSend (setMessage ''hi'' ui0)) (id_c alice) \<noteq> None
   \<and> timeoutFires 5 6 (handleSend (setMessage ''hi'' ui0)) =
       Inr (ui0\<lparr>messages := [''1'' \<mapsto> [hello, newMessage ''hi'' 5 6]]\<rparr>)
   \<and> conversation (messages (ui0\<lparr>messages := [''1'' \<mapsto> [hello, newMessage ''hi'' 5 6]]\<rparr>))
         (id_c alice) =
       conversation (messages (handleSend (setMessage ''hi'' ui0))) (id_c alice) @
         [newMessage (t_message \<lparr>t_message = ''hi'', t_selectedContact = Some alice\<rparr>) 5 6]
   \<and> conversation (messages (ui0\<lparr>messages := [''1'' \<mapsto> [hello, newMessage ''hi'' 5 6]]\<rparr>))
         (id_c bob) =
       conversation (messages (handleSend (setMessage ''hi'' ui0))) (id_c bob)"
proof -
  let ?s = "handleSend (setMessage ''hi'' ui0)"
  let ?t = "\<lparr>t_message = ''hi'', t_selectedContact = Some alice\<rparr>"
  let ?after = "ui0\<lparr>messages := [''1'' \<mapsto> [hello, newMessage ''hi'' 5 6]]\<rparr>"
  have h1: "timers ?s = ?t # []"
    by (simp add: ui0_def ui_eval js_eval)
  have h2: "t_selectedContact ?t = Some alice"
    by simp
  have h3: "\<not> blank (t_message ?t)"
    by (simp add: blank_def isWhiteSpace_def)
  have own: "messages ?s (id_c alice) \<noteq> None"
    by (simp add: ui0_def alice_def ui_eval js_eval)
  have ids: "id_c bob \<noteq> id_c alice"
    by (simp add: alice_def bob_def)
  have fire: "timeoutFires 5 6 ?s = Inr ?after"
    by (simp add: ui0_def alice_def ui_eval js_eval)
  from C5_frame [OF h1 h2 h3, of 5 6, unfolded Let_def] fire ids
  have "conversation (messages ?after) (id_c alice) =
          conversation (messages ?s) (id_c alice) @ [newMessage (t_message ?t) 5 6]"
    and "conversation (messages ?after) (id_c bob) = conversation (messages ?s) (id_c bob)"
    by blast+
  with h1 h2 h3 own fire show ?thesis
    by blast
qed

text \<open>
  C6. A submit with a blank draft changes nothing, by whatever trigger: no timer, no
  message. With no contact selected, the delivery of a submitted draft returns and
  leaves the store as it is; \<open>handleSendMessage\<close> returns the store it was given when
  there is no contact or the content is blank. Nothing is thrown or reported in these
  cases.
\<close>

theorem C6_rejected_submit:
  "(blank (message ui) \<longrightarrow>
      handleSend ui = ui \<and> onClickSend ui = ui \<and> snd (handleKeyDown e ui) = ui)
   \<and> (selectedContact ui = None \<and> \<not> blank (message ui)
        \<and> length (filter isTimeout evs) = length (timers ui)
        \<and> run evs (handleSend ui) = Inr before \<longrightarrow>
      (\<exists>after. timeoutFires now stamp before = Inr after
         \<and> messages after = messages before))
   \<and> handleSendMessage None c now stamp prev = Inr prev
   \<and> (blank c \<longrightarrow> handleSendMessage sel c now stamp prev = Inr prev)"
proof -
  have a: "blank (message ui) \<longrightarrow>
      handleSend ui = ui \<and> onClickSend ui = ui \<and> snd (handleKeyDown e ui) = ui"
    by (simp add: handleSend_def onClickSend_def handleKeyDown_def trim_empty_iff)
  have c: "handleSendMessage None c now stamp prev = Inr prev" for c prev
    by (simp add: handleSendMessage_def)
  have b: "\<exists>after. timeoutFires now stamp before = Inr after \<and> messages after = messages before"
    if "selectedContact ui = None" "\<not> blank (message ui)"
      "length (filter isTimeout evs) = length (timers ui)"
      "run evs (handleSend ui) = Inr before"
    using submit_delivery [OF that(2,3,4), of now stamp]
    by (auto simp: that(1) c)
  have d: "blank c \<longrightarrow> handleSendMessage sel c now stamp prev = Inr prev"
    by (simp add: handleSendMessage_def trim_empty_iff split: option.split)
  from a b c d show ?thesis by blast
qed

theorem C6_rejected_submit_witness:
  "blank (message (setMessage ''  '' ui0))
   \<and> handleSend (setMessage ''  '' ui0) = setMessage ''  '' ui0
   \<and> onClickSend (setMessage ''  '' ui0) = setMessage ''  '' ui0
   \<and> snd (handleKeyDown enter (setMessage ''  '' ui0)) = setMessage ''  '' ui0
   \<and> selectedContact nobody = None \<and> \<not> blank (message nobody)
   \<and> length (filter isTimeout [Change ''x'']) = length (timers nobody)
   \<and> run [Change ''x''] (handleSend nobody) =
       Inr (nobody\<lparr>message := ''x'', isSending := True,
              timers := [\<lparr>t_message = ''hi'', t_selectedContact = None\<rparr>]\<rparr>)
   \<and> (\<exists>after. timeoutFires 5 6 (nobody\<lparr>message := ''x'', isSending := True,
              timers := [\<lparr>t_message = ''hi'', t_selectedContact = None\<rparr>]\<rparr>) = Inr after
         \<and> messages after = messages (nobody\<lparr>message := ''x'', isSending := True,
              timers := [\<lparr>t_message = ''hi'', t_selectedContact = None\<rparr>]\<rparr>))
   \<and> blank []
   \<and> handleSendMessage (Some alice) [] 5 6 (messages ui0) = Inr (messages ui0)"
proof -
  let ?before = "nobody\<lparr>message := ''x'', isSending := True,
              timers := [\<lparr>t_message = ''hi'', t_selectedContact = None\<rparr>]\<rparr>"
  have h1: "blank (message (setMessage ''  '' ui0))"
    by (simp add: setMessage_def blank_def isWhiteSpace_def)
  have h2: "selectedContact nobody = None" "\<not> blank (message nobody)"
    "length (filter isTimeout [Change ''x'']) = length (timers nobody)"
    by (simp_all add: nobody_def ui0_def blank_def isWhiteSpace_def)
  have r: "run [Change ''x''] (handleSend nobody) = Inr ?before"
    by (simp add: nobody_def ui0_def ui_eval js_eval)
  have h3: "blank []"
    by (simp add: blank_def)
  from C6_rejected_submit [of "setMessage ''  '' ui0" enter] h1
  have p1: "handleSend (setMessage ''  '' ui0) = setMessage ''  '' ui0"
    "onClickSend (setMessage ''  '' ui0) = setMessage ''  '' ui0"
    "snd (handleKeyDown enter (setMessage ''  '' ui0)) = setMessage ''  '' ui0"
    by blast+
  from C6_rejected_submit [of nobody enter "[Change ''x'']" ?before 5 6] h2 r
  have p2: "\<exists>after. timeoutFires 5 6 ?before = Inr after \<and> messages after = messages ?before"
    by blast
  from C6_rejected_submit [of ui0 enter "[]" ui0 5 6 "[]" "messages ui0" "Some alice"] h3
  have p3: "handleSendMessage (Some alice) [] 5 6 (messages ui0) = Inr (messages ui0)"
    by blast
  from h1 h2 r h3 p1 p2 p3 show ?thesis
    by blast
qed

section \<open>Selecting a contact\<close>

text \<open>
  Against C9 as stated: on a phone with the sidebar open, a click on the contact that
  is already selected closes the sidebar.
\<close>

theorem C9_reselect_counterexample:
  "selectedContact ui0 = Some alice \<and> showSidebar ui0
   \<and> \<not> showSidebar (contactClick alice ui0)"
  by (simp add: ui0_def contactClick_def handleContactClick_def setSelectedContact_def
      closeSidebar_def Let_def)

text \<open>
  C9, amended. Selecting is idempotent as a state change: a second click on the same
  contact adds nothing to the first. A click on the contact that is already selected
  leaves the selection and the store unchanged, and changes the state at most in the
  sidebar flag, which becomes false on a mobile layout; on a desktop layout, or with
  the sidebar already closed, the click changes nothing.
\<close>

theorem C9_reselect:
  "contactClick c (contactClick c ui) = contactClick c ui
   \<and> (selectedContact ui = Some c \<longrightarrow>
        selectedContact (contactClick c ui) = selectedContact ui
        \<and> messages (contactClick c ui) = messages ui
        \<and> contactClick c ui = ui\<lparr>showSidebar := showSidebar ui \<and> \<not> isMobile ui\<rparr>
        \<and> (\<not> isMobile ui \<or> \<not> showSidebar ui \<longrightarrow> contactClick c ui = ui))"
  by (auto simp: contactClick_def handleContactClick_def setSelectedContact_def
      closeSidebar_def Let_def)

theorem C9_reselect_witness:
  "selectedContact (ui0\<lparr>isMobile := False\<rparr>) = Some alice
   \<and> \<not> isMobile (ui0\<lparr>isMobile := False\<rparr>)
   \<and> contactClick alice (ui0\<lparr>isMobile := False\<rparr>) = ui0\<lparr>isMobile := False\<rparr>
   \<and> messages (contactClick alice (ui0\<lparr>isMobile := False\<rparr>)) =
       messages (ui0\<lparr>isMobile := False\<rparr>)"
proof -
  have h: "selectedContact (ui0\<lparr>isMobile := False\<rparr>) = Some alice"
    and d: "\<not> isMobile (ui0\<lparr>isMobile := False\<rparr>)"
    by (simp_all add: ui0_def)
  from C9_reselect [of alice "ui0\<lparr>isMobile := False\<rparr>"] h d
  show ?thesis by blast
qed

section \<open>The remote echo client\<close>

text \<open>
  C8. \<open>send\<close> with a text that is not blank appends the line \<open>You: \<close> followed by
  the text at the end of the transcript, in the same handler that emits it (nothing is
  awaited); the handler of \<open>receive\<close> with payload text \<open>t\<close> appends the line
  \<open>Friend: \<close> followed by \<open>t\<close> at the end of the transcript.
\<close>

theorem C8_transcript:
  "(\<not> blank (msg s) \<longrightarrow> transcript (send s) = transcript s @ [''You: '' @ msg s])
   \<and> transcript (receive \<lparr>data_text = t\<rparr> s) = transcript s @ [''Friend: '' @ t]"
  by (simp add: send_def receive_def trim_empty_iff)

theorem C8_transcript_witness:
  "\<not> blank (msg (setMsg ''hello'' chat0))
   \<and> transcript (send (setMsg ''hello'' chat0)) =
       transcript (setMsg ''hello'' chat0) @ [''You: hello'']
   \<and> transcript (receive \<lparr>data_text = ''hey''\<rparr> chat0) = transcript chat0 @ [''Friend: hey'']"
proof -
  have h: "\<not> blank (msg (setMsg ''hello'' chat0))"
    by (simp add: setMsg_def blank_def isWhiteSpace_def)
  have m: "msg (setMsg ''hello'' chat0) = ''hello''"
    by (simp add: setMsg_def)
  from C8_transcript [of "setMsg ''hello'' chat0" "''hey''"]
       C8_transcript [of chat0 "''hey''"] h m
  show ?thesis by simp
qed

section \<open>The content that is delivered\<close>

text \<open>
  C10. The content delivered is the draft as typed, not trimmed. In the messaging
  interface the message appended by the delivery of an accepted submit has the draft of
  the submit as its content (and the delivery returns unless the contact's id is an
  inherited key that the store does not hold itself); in the echo client the text
  emitted on the socket is the draft, and the transcript line is \<open>You: \<close> followed by
  the draft. At the draft \<open> hi \<close> the blanks on both sides are kept.
\<close>

theorem C10_raw_content:
  "(\<not> blank (message ui) \<and> selectedContact ui = Some c
      \<and> length (filter isTimeout evs) = length (timers ui)
      \<and> run evs (handleSend ui) = Inr before \<longrightarrow>
      ((\<exists>after. timeoutFires now stamp before = Inr after) =
         (messages before (id_c c) \<noteq> None \<or> id_c c \<notin> set objectPrototypeKeys))
      \<and> (\<forall>after. timeoutFires now stamp before = Inr after \<longrightarrow>
            content (last (conversation (messages after) (id_c c))) = message ui))
   \<and> (\<not> blank (msg s) \<longrightarrow>
        emitted (send s) = emitted s @ [(''message'', msg s)]
        \<and> last (transcript (send s)) = ''You: '' @ msg s)"
proof -
  have a: "((\<exists>after. timeoutFires now stamp before = Inr after) =
         (messages before (id_c c) \<noteq> None \<or> id_c c \<notin> set objectPrototypeKeys))
      \<and> (\<forall>after. timeoutFires now stamp before = Inr after \<longrightarrow>
            content (last (conversation (messages after) (id_c c))) = message ui)"
    if p: "\<not> blank (message ui)" "selectedContact ui = Some c"
      "length (filter isTimeout evs) = length (timers ui)"
      "run evs (handleSend ui) = Inr before"
  proof -
    obtain ts' where f0: "timeoutFires now stamp before =
        (case handleSendMessage (selectedContact ui) (message ui) now stamp (messages before) of
           Inl e \<Rightarrow> Inl e
         | Inr st \<Rightarrow>
             Inr (before\<lparr>messages := st, message := [], isSending := False, timers := ts'\<rparr>))"
      using submit_delivery [OF p(1,3,4), of now stamp] by blast
    have fire: "timeoutFires now stamp before =
        (if messages before (id_c c) = None \<and> id_c c \<in> set objectPrototypeKeys
         then Inl TypeError
         else Inr (before\<lparr>messages := (messages before)(id_c c \<mapsto>
                      conversation (messages before) (id_c c) @
                        [newMessage (message ui) now stamp]),
                    message := [], isSending := False, timers := ts'\<rparr>))"
      using p(1) by (simp add: f0 p(2) handleSendMessage_append)
    show ?thesis
      by (auto simp: fire conversation_upd newMessage_def)
  qed
  have b: "\<not> blank (msg s) \<longrightarrow>
        emitted (send s) = emitted s @ [(''message'', msg s)]
        \<and> last (transcript (send s)) = ''You: '' @ msg s"
    by (simp add: send_def trim_empty_iff)
  from a b show ?thesis by blast
qed

theorem C10_raw_content_witness:
  "\<not> blank (message (setMessage '' hi '' ui0))
   \<and> selectedContact (setMessage '' hi '' ui0) = Some alice
   \<and> length (filter isTimeout []) = length (timers (setMessage '' hi '' ui0))
   \<and> run [] (handleSend (setMessage '' hi '' ui0)) = Inr (handleSend (setMessage '' hi '' ui0))
   \<and> timeoutFires 5 6 (handleSend (setMessage '' hi '' ui0)) =
       Inr (ui0\<lparr>messages := [''1'' \<mapsto> [hello, newMessage '' hi '' 5 6]]\<rparr>)
   \<and> content (last (conversation
        (messages (ui0\<lparr>messages := [''1'' \<mapsto> [hello, newMessage '' hi '' 5 6]]\<rparr>))
        (id_c alice))) = '' hi ''
   \<and> \<not> blank (msg chat0)
   \<and> emitted (send chat0) = emitted chat0 @ [(''message'', '' hi '')]
   \<and> last (transcript (send chat0)) = ''You:  hi ''
   \<and> trim '' hi '' \<noteq> '' hi ''"
proof -
  let ?s = "handleSend (setMessage '' hi '' ui0)"
  let ?after = "ui0\<lparr>messages := [''1'' \<mapsto> [hello, newMessage '' hi '' 5 6]]\<rparr>"
  have h1: "\<not> blank (message (setMessage '' hi '' ui0))"
    by (simp add: setMessage_def blank_def isWhiteSpace_def)
  have h2: "selectedContact (setMessage '' hi '' ui0) = Some alice"
    and h3: "length (filter isTimeout []) = length (timers (setMessage '' hi '' ui0))"
    by (simp_all add: setMessage_def ui0_def)
  have r: "run [] ?s = Inr ?s"
    by simp
  have fire: "timeoutFires 5 6 ?s = Inr ?after"
    by (simp add: ui0_def alice_def ui_eval js_eval)
  have h4: "\<not> blank (msg chat0)"
    by (simp add: chat0_def blank_def isWhiteSpace_def)
  have m: "message (setMessage '' hi '' ui0) = '' hi ''" "msg chat0 = '' hi ''"
    by (simp_all add: setMessage_def chat0_def)
  have t: "trim '' hi '' \<noteq> '' hi ''"
    by (simp add: js_eval)
  from C10_raw_content [of "setMessage '' hi '' ui0" alice "[]" ?s 5 6 chat0] h1 h2 h3 r fire
  have p1: "content (last (conversation (messages ?after) (id_c alice))) =
      message (setMessage '' hi '' ui0)"
    by blast
  from C10_raw_content [of "setMessage '' hi '' ui0" alice "[]" ?s 5 6 chat0] h4
  have p2: "emitted (send chat0) = emitted chat0 @ [(''message'', msg chat0)]"
    "last (transcript (send chat0)) = ''You: '' @ msg chat0"
    by blast+
  from h1 h2 h3 r fire h4 t p1 p2 show ?thesis
    by (simp add: m)
qed

section \<open>Message identifiers\<close>

text \<open>
  C7. The ids within a conversation are to be pairwise distinct in every state that can
  be reached. The id is the clock reading of the delivery. The unguarded Enter key lets
  two timers be pending at once; when both fire within the same millisecond (here both
  read 5), the conversation gets two messages with the id \<open>msg-5\<close>.
\<close>

theorem C7_same_millisecond:
  "run [Change ''hi'', KeyDown enter, KeyDown enter, TimeoutFires 5 5, TimeoutFires 5 5] ui0 =
     Inr (ui0\<lparr>messages := [''1'' \<mapsto> [hello, newMessage ''hi'' 5 5, newMessage ''hi'' 5 5]]\<rparr>)
   \<and> map id_m (conversation
        (messages (ui0\<lparr>messages :=
           [''1'' \<mapsto> [hello, newMessage ''hi'' 5 5, newMessage ''hi'' 5 5]]\<rparr>)) ''1'') =
       [''m1'', ''msg-5'', ''msg-5'']
   \<and> \<not> idsUnique (messages (ui0\<lparr>messages :=
           [''1'' \<mapsto> [hello, newMessage ''hi'' 5 5, newMessage ''hi'' 5 5]]\<rparr>))"
proof -
  let ?st = "[''1'' \<mapsto> [hello, newMessage ''hi'' 5 5, newMessage ''hi'' 5 5]]"
  have r: "run [Change ''hi'', KeyDown enter, KeyDown enter, TimeoutFires 5 5, TimeoutFires 5 5]
      ui0 = Inr (ui0\<lparr>messages := ?st\<rparr>)"
    by (simp add: ui0_def alice_def enter_def ui_eval js_eval)
  have ids: "map id_m (conversation (messages (ui0\<lparr>messages := ?st\<rparr>)) ''1'') =
      [''m1'', ''msg-5'', ''msg-5'']"
    by (simp add: conversation_def hello_def newMessage_def numberToString_def digits.simps
        js_eval)
  then have "\<not> distinct (map id_m (conversation (messages (ui0\<lparr>messages := ?st\<rparr>)) ''1''))"
    by simp
  then have "\<not> idsUnique (messages (ui0\<lparr>messages := ?st\<rparr>))"
    unfolding idsUnique_def by blast
  with r ids show ?thesis
    by blast
qed

end
